theory Spec2Isabelle
  imports Complex_Main "HOL-Library.Word" "HOL-Library.Log_Nat"
begin

unbundle bit_operations_syntax

section \<open>Number values\<close>

text \<open>
  The program is JavaScript; every number is an IEEE-754 double. Two views of a number
  are used here.

  \<^item> Coordinates, angles, sizes and scales are modelled as \<^typ>\<open>real\<close>: the arithmetic
    of the program is read as exact arithmetic, without rounding and without overflow.
    The non-finite values (\<open>NaN\<close>, \<open>\<plusminus>Infinity\<close>) have no counterpart. A division
    whose divisor can be zero is \<open>js_div\<close>, which answers \<open>None\<close> where the program
    gets a non-finite value. \<open>Math.sqrt\<close> is applied to non-negative numbers only.
  \<^item> Numbers that hold integers (the generator's seed) are modelled as \<^typ>\<open>int\<close>.
    A double holds every integer up to \<open>2 ^ 53\<close> in magnitude; a sum beyond that
    is rounded to 53 significant bits, ties to even: \<open>js_add\<close>.
\<close>

definition js_div :: "real \<Rightarrow> real \<Rightarrow> real option" where
  "js_div a b = (if b = 0 then None else Some (a / b))"

definition round_to_double :: "int \<Rightarrow> int" where
  "round_to_double n =
     (let a = \<bar>n\<bar>; e = bitlen a - 53 in
      if e \<le> 0 then n
      else let ulp = 2 ^ nat e; q = a div ulp; r = a mod ulp;
               q' = (if 2 * r > ulp \<or> (2 * r = ulp \<and> odd q) then q + 1 else q)
           in sgn n * (q' * ulp))"

definition js_add :: "int \<Rightarrow> int \<Rightarrow> int" where
  "js_add a b = round_to_double (a + b)"

text \<open>
  The bitwise operators convert their operands with \<open>ToInt32\<close> (\<open>ToUint32\<close> for
  \<open>>>>\<close>), that is modulo \<open>2 ^ 32\<close>, and answer a signed 32-bit value, except
  \<open>>>>\<close>, which answers an unsigned one. \<open>Math.imul\<close> is the low 32 bits of the
  product, signed.
\<close>

definition js_xor :: "int \<Rightarrow> int \<Rightarrow> int" where
  "js_xor a b = sint ((word_of_int a :: 32 word) XOR word_of_int b)"

definition js_or :: "int \<Rightarrow> int \<Rightarrow> int" where
  "js_or a b = sint ((word_of_int a :: 32 word) OR word_of_int b)"

definition js_ushr :: "int \<Rightarrow> nat \<Rightarrow> int" where
  "js_ushr a k = uint (drop_bit (k mod 32) (word_of_int a :: 32 word))"

definition imul :: "int \<Rightarrow> int \<Rightarrow> int" where
  "imul a b = sint ((word_of_int a :: 32 word) * word_of_int b)"

section \<open>The seeded generator\<close>

text \<open>
  A string is its sequence of UTF-16 code units; \<open>split('')\<close> cuts it into them and
  \<open>charCodeAt(0)\<close> reads one. A seed is a string or a number holding an integer
  (\<open>typeof seed === 'string'\<close> tells them apart).
\<close>

type_synonym js_string = "16 word list"

datatype js_seed = Str js_string | Num int

definition charCodeAt0 :: "16 word \<Rightarrow> int" where
  "charCodeAt0 char = uint char"

fun convertStringToNumber :: "js_seed \<Rightarrow> int" where
  "convertStringToNumber (Str seed) = foldl (\<lambda>acc char. js_add acc (charCodeAt0 char)) 0 seed"
| "convertStringToNumber (Num seed) = seed"

text \<open>
  \<open>mulberry32(seed)\<close> returns a closure over the variable \<open>seed\<close>, which every call of
  the closure advances. The closure is modelled by the value of that variable:
  \<open>mulberry32\<close> gives the initial one, and \<open>rand\<close> (the name the callers bind the
  closure to) is one call, answering the number returned and the new value of the
  variable. The variable is not reduced modulo \<open>2 ^ 32\<close> in the program; only the
  bitwise operators that read it reduce it.
\<close>

definition mulberry32 :: "js_seed \<Rightarrow> int" where
  "mulberry32 seed = convertStringToNumber seed"

definition rand :: "int \<Rightarrow> real \<times> int" where
  "rand seed =
     (let seed = js_add seed 0x6D2B79F5;
          t = seed;
          t = imul (js_xor t (js_ushr t 15)) (js_or t 1);
          t = js_xor t (js_add t (imul (js_xor t (js_ushr t 7)) (js_or t 61)))
      in (real_of_int (js_ushr (js_xor t (js_ushr t 14)) 0) / 4294967296, seed))"

text \<open>The variable \<open>seed\<close> after \<open>k\<close> calls of the closure.\<close>

fun seed_after :: "nat \<Rightarrow> int \<Rightarrow> int" where
  "seed_after 0 seed = seed"
| "seed_after (Suc k) seed = snd (rand (seed_after k seed))"

subsection \<open>The algorithm as the specification words it\<close>

text \<open>
  The specification's pseudo-code, on 32-bit words: the state is kept modulo \<open>2 ^ 32\<close>,
  and the second mixing step reads \<open>state >> 7\<close> and \<open>state or 61\<close>.
\<close>

definition spec_next :: "32 word \<Rightarrow> real \<times> 32 word" where
  "spec_next state =
     (let state = state + 0x6D2B79F5;
          t = (state XOR drop_bit 15 state) * (state OR 1);
          t = t XOR (t + (t XOR drop_bit 7 state) * (state OR 61))
      in (real_of_int (uint (t XOR drop_bit 14 t)) / 2 ^ 32, state))"

section \<open>The layout worker\<close>

text \<open>
  The worker receives the list \<open>data\<close> of \<open>{holderID, size}\<close> records and answers with
  the list of the characters placed. Record fields whose names would clash with one
  another or with names of HOL carry the record's name as a prefix:
  \<open>item_size\<close> is the field \<open>size\<close>, \<open>char_x\<close> and \<open>char_y\<close> are the fields \<open>x\<close> and
  \<open>y\<close> of a placed character, \<open>bb_left\<close> \<open>\<dots>\<close> \<open>bb_height\<close> are the fields of its
  \<open>boundingBox\<close>.
\<close>

record item =
  holderID :: js_seed
  item_size :: real

record boundingBox =
  bb_left :: real
  bb_right :: real
  bb_top :: real
  bb_bottom :: real
  bb_width :: real
  bb_height :: real

record character =
  char_x :: real
  char_y :: real
  sizeParameter :: real
  paramSeed :: int
  walletAddress :: js_seed
  boundingBox :: boundingBox

record message =
  positions :: "character option list"
  isComplete :: bool

text \<open>
  The constants of the callback of \<open>data.map\<close>, each as the program computes it.
  \<open>angle\<close> and \<open>radius\<close> are the values the variables of these names are declared
  with; the perturbations are added to them afterwards, in \<open>place\<close>.
\<close>

definition maxRadius :: "item list \<Rightarrow> real" where
  "maxRadius data = sqrt (real (length data)) * 500"

definition goldenAngle :: real where
  "goldenAngle = pi * (3 - sqrt 5)"

definition sizeScale :: "item \<Rightarrow> real" where
  "sizeScale item = 1 + (item_size item * 2)"

definition angle :: "nat \<Rightarrow> real" where
  "angle index = real index * goldenAngle"

definition radius :: "item list \<Rightarrow> item \<Rightarrow> nat \<Rightarrow> real option" where
  "radius data item index =
     (case js_div (real index) (real (length data)) of
        None \<Rightarrow> None
      | Some ratio \<Rightarrow> Some (maxRadius data * sqrt ratio * sizeScale item))"

text \<open>
  The callback \<open>(item, index) => {\<dots>}\<close>. It answers \<open>None\<close> where a division by zero
  makes the coordinates \<open>NaN\<close>. The generator is called twice, first for the angle,
  then for the radius.
\<close>

definition place :: "item list \<Rightarrow> item \<Rightarrow> nat \<Rightarrow> character option" where
  "place data item index =
     (case radius data item index of
        None \<Rightarrow> None
      | Some radius0 \<Rightarrow>
          let (r1, rand1) = rand (mulberry32 (holderID item));
              anglePerturbation = (r1 - 0.5) * 0.1;
              (r2, rand2) = rand rand1
          in case js_div (maxRadius data * 0.9) (real (length data)) of
               None \<Rightarrow> None
             | Some step \<Rightarrow>
                 let radiusPerturbation = (r2 - 0.5) * step * 2 * sizeScale item;
                     angle1 = angle index + anglePerturbation;
                     radius1 = radius0 + radiusPerturbation;
                     x = radius1 * cos angle1;
                     y = radius1 * sin angle1;
                     baseSize = 600;
                     scaledWidth = baseSize * item_size item;
                     scaledHeight = baseSize * item_size item
                 in Some \<lparr>char_x = x, char_y = y,
                           sizeParameter = item_size item,
                           paramSeed = convertStringToNumber (holderID item),
                           walletAddress = holderID item,
                           boundingBox = \<lparr>bb_left = x - scaledWidth / 2,
                                           bb_right = x + scaledWidth / 2,
                                           bb_top = y - scaledHeight / 2,
                                           bb_bottom = y + scaledHeight / 2,
                                           bb_width = scaledWidth,
                                           bb_height = scaledHeight\<rparr>\<rparr>)"

text \<open>
  The handler of a request. Its value is the list of the messages it posts with
  \<open>self.postMessage\<close>.
\<close>

definition onmessage :: "item list \<Rightarrow> message list" where
  "onmessage data =
     [\<lparr>positions = map (\<lambda>(item, index). place data item index) (zip data [0..<length data]),
       isComplete = True\<rparr>]"

section \<open>The viewport\<close>

record viewport =
  width :: real
  height :: real
  centerX :: real
  centerY :: real

definition FIXED_VIEWPORT :: viewport where
  "FIXED_VIEWPORT = \<lparr>width = 1920, height = 1080, centerX = 1920 / 2, centerY = 1080 / 2\<rparr>"

record per_device =
  desktop :: real
  mobile :: real

definition ZOOM_SPEED :: per_device where
  "ZOOM_SPEED = \<lparr>desktop = 0.14, mobile = 2\<rparr>"

definition PAN_SPEED :: per_device where
  "PAN_SPEED = \<lparr>desktop = 1.5, mobile = 3.5\<rparr>"

definition CULLING_MARGIN :: per_device where
  "CULLING_MARGIN = \<lparr>desktop = 500, mobile = 800\<rparr>"

text \<open>
  The state \<open>viewBox\<close> of the component, with fields \<open>x\<close>, \<open>y\<close> and \<open>scale\<close> (here
  \<open>vb_x\<close>, \<open>vb_y\<close>, \<open>vb_scale\<close>). The characters are drawn in a group with the transform
  \<open>translate(centerX + viewBox.x, centerY + viewBox.y) scale(viewBox.scale)\<close>:
  \<open>toScreen\<close> is where that transform puts a point of the plane.
\<close>

record viewBox =
  vb_x :: real
  vb_y :: real
  vb_scale :: real

definition toScreen :: "viewBox \<Rightarrow> real \<times> real \<Rightarrow> real \<times> real" where
  "toScreen viewBox p =
     (centerX FIXED_VIEWPORT + vb_x viewBox + fst p * vb_scale viewBox,
      centerY FIXED_VIEWPORT + vb_y viewBox + snd p * vb_scale viewBox)"

definition isCharacterVisible :: "bool \<Rightarrow> viewBox \<Rightarrow> real \<Rightarrow> real \<Rightarrow> bool" where
  "isCharacterVisible isMobile viewBox x y =
     (let screenX = centerX FIXED_VIEWPORT + vb_x viewBox;
          screenY = centerY FIXED_VIEWPORT + vb_y viewBox;
          scaledX = x * vb_scale viewBox + screenX;
          scaledY = y * vb_scale viewBox + screenY;
          margin = (if isMobile then mobile CULLING_MARGIN else desktop CULLING_MARGIN)
      in scaledX \<ge> - margin \<and> scaledX \<le> width FIXED_VIEWPORT + margin
         \<and> scaledY \<ge> - margin \<and> scaledY \<le> height FIXED_VIEWPORT + margin)"

subsection \<open>Wheel zoom\<close>

record pointer =
  clientX :: real
  clientY :: real

record wheelEvent = pointer +
  deltaY :: real

text \<open>
  \<open>handleWheel\<close> replaces \<open>viewBox\<close> by the value of its updater at the previous one.
  The updater divides by \<open>prev.scale\<close>; at scale zero the new offsets are \<open>NaN\<close>, which
  is \<open>None\<close> here. \<open>isMobile\<close> is the test of the user agent.
\<close>

definition handleWheel :: "bool \<Rightarrow> 'a wheelEvent_scheme \<Rightarrow> viewBox \<Rightarrow> viewBox option" where
  "handleWheel isMobile e prev =
     (let speed = (if isMobile then mobile ZOOM_SPEED else desktop ZOOM_SPEED);
          scaleFactor = 1 - sgn (deltaY e) * speed;
          newScale = vb_scale prev * scaleFactor;
          mouseX = clientX e - centerX FIXED_VIEWPORT;
          mouseY = clientY e - centerY FIXED_VIEWPORT
      in case js_div (mouseX - vb_x prev) (vb_scale prev) of
           None \<Rightarrow> None
         | Some worldX \<Rightarrow>
             (case js_div (mouseY - vb_y prev) (vb_scale prev) of
                None \<Rightarrow> None
              | Some worldY \<Rightarrow>
                  Some \<lparr>vb_x = vb_x prev - worldX * (scaleFactor - 1) * vb_scale prev,
                        vb_y = vb_y prev - worldY * (scaleFactor - 1) * vb_scale prev,
                        vb_scale = newScale\<rparr>))"

subsection \<open>Touch: pan and pinch\<close>

record panState =
  isPanning :: bool
  startX :: real
  startY :: real
  startViewBoxX :: real
  startViewBoxY :: real

text \<open>
  The component's \<open>viewBox\<close> together with the two references the touch handlers read
  and write. A state update is applied as soon as it is requested.
\<close>

record planeState =
  viewBox :: viewBox
  panStateRef :: "panState option"
  lastTouchDistance :: "real option"

definition handlePointerMove :: "bool \<Rightarrow> 'a pointer_scheme \<Rightarrow> planeState \<Rightarrow> planeState" where
  "handlePointerMove isMobile e st =
     (case panStateRef st of
        None \<Rightarrow> st
      | Some pan \<Rightarrow>
          if isPanning pan then
            let speed = (if isMobile then mobile PAN_SPEED else desktop PAN_SPEED);
                dx = (clientX e - startX pan) * speed;
                dy = (clientY e - startY pan) * speed
            in st\<lparr>viewBox := (viewBox st)\<lparr>vb_x := startViewBoxX pan + dx,
                                            vb_y := startViewBoxY pan + dy\<rparr>\<rparr>
          else st)"

text \<open>
  \<open>handleTouchMove\<close> with the list \<open>e.touches\<close>. With two touches it zooms about their
  midpoint by the ratio of their distance to the previous one, when that one is
  truthy (neither \<open>null\<close> nor zero), and stores the distance.
\<close>

definition handleTouchMove :: "bool \<Rightarrow> pointer list \<Rightarrow> planeState \<Rightarrow> planeState option" where
  "handleTouchMove isMobile touches st =
     (if length touches = 2 then
        let dx = clientX (touches ! 0) - clientX (touches ! 1);
            dy = clientY (touches ! 0) - clientY (touches ! 1);
            distance = sqrt (dx * dx + dy * dy);
            zoomed =
              (case lastTouchDistance st of
                 None \<Rightarrow> Some (viewBox st)
               | Some previous \<Rightarrow>
                   if previous = 0 then Some (viewBox st)
                   else
                     let scale = distance / previous;
                         zoomChange = (scale - 1) * mobile ZOOM_SPEED;
                         scaleFactor = 1 + zoomChange;
                         centerX' = (clientX (touches ! 0) + clientX (touches ! 1)) / 2;
                         centerY' = (clientY (touches ! 0) + clientY (touches ! 1)) / 2;
                         prev = viewBox st;
                         newScale = vb_scale prev * scaleFactor;
                         mouseX = centerX' - centerX FIXED_VIEWPORT;
                         mouseY = centerY' - centerY FIXED_VIEWPORT
                     in case js_div (mouseX - vb_x prev) (vb_scale prev) of
                          None \<Rightarrow> None
                        | Some worldX \<Rightarrow>
                            (case js_div (mouseY - vb_y prev) (vb_scale prev) of
                               None \<Rightarrow> None
                             | Some worldY \<Rightarrow>
                                 Some \<lparr>vb_x = vb_x prev - worldX * (scaleFactor - 1) * vb_scale prev,
                                       vb_y = vb_y prev - worldY * (scaleFactor - 1) * vb_scale prev,
                                       vb_scale = newScale\<rparr>))
        in case zoomed of
             None \<Rightarrow> None
           | Some vb \<Rightarrow> Some (st\<lparr>viewBox := vb, lastTouchDistance := Some distance\<rparr>)
      else if length touches = 1 then Some (handlePointerMove isMobile (touches ! 0) st)
      else Some st)"

section \<open>Search\<close>

text \<open>
  The index from \<open>walletAddress\<close> to character: a \<open>Map\<close> filled in the order of the
  list, so that a later character replaces an earlier one of the same address.
\<close>

definition characterIndex :: "character list \<Rightarrow> (js_seed \<rightharpoonup> character)" where
  "characterIndex characterPositions =
     fold (\<lambda>char index. index(walletAddress char \<mapsto> char)) characterPositions Map.empty"

text \<open>
  One frame of the animation, for the start and target transforms and the start time
  the closure \<open>animate\<close> holds: the \<open>viewBox\<close> it sets, and whether it asks for another
  frame.
\<close>

definition animate :: "viewBox \<Rightarrow> viewBox \<Rightarrow> real \<Rightarrow> real \<Rightarrow> viewBox \<times> bool" where
  "animate start target startTime currentTime =
     (let duration = 1000;
          elapsed = currentTime - startTime;
          progress = min (elapsed / duration) 1;
          easeProgress = 1 - (1 - progress) ^ 3;
          newX = vb_x start + (vb_x target - vb_x start) * easeProgress;
          newY = vb_y start + (vb_y target - vb_y start) * easeProgress;
          newScale = vb_scale start + (vb_scale target - vb_scale start) * easeProgress
      in (\<lparr>vb_x = newX, vb_y = newY, vb_scale = newScale\<rparr>, progress < 1))"

text \<open>The frames the browser delivers, at the times of the list, until one asks for no more.\<close>

fun animation_frames :: "(real \<Rightarrow> viewBox \<times> bool) \<Rightarrow> real list \<Rightarrow> viewBox \<Rightarrow> viewBox" where
  "animation_frames frame [] vb = vb"
| "animation_frames frame (currentTime # later) vb =
     (if snd (frame currentTime) then animation_frames frame later (fst (frame currentTime))
      else fst (frame currentTime))"

text \<open>
  \<open>handleSearch\<close>, for the index, the search input and the \<open>viewBox\<close> it closes over,
  the value \<open>now\<close> of \<open>performance.now()\<close> and the times of the frames that follow. Its
  value is the \<open>viewBox\<close> it leaves and the list of the alerts it raises.
\<close>

definition handleSearch ::
  "character list \<Rightarrow> js_string \<Rightarrow> real \<Rightarrow> real list \<Rightarrow> viewBox \<Rightarrow> viewBox \<times> string list" where
  "handleSearch characterPositions searchInput now frames viewBox' =
     (case characterIndex characterPositions (Str searchInput) of
        Some character \<Rightarrow>
          let start = viewBox';
              target = \<lparr>vb_x = - char_x character - 100,
                        vb_y = - char_y character - 50,
                        vb_scale = 1\<rparr>
          in (animation_frames (animate start target now) frames viewBox', [])
      | None \<Rightarrow> (viewBox', [''Character not found'']))"

section \<open>Properties of the generator\<close>

subsection \<open>Exact sums\<close>

lemma round_to_double_exact:
  assumes "\<bar>n\<bar> \<le> 2 ^ 53"
  shows "round_to_double n = n"
proof (cases "\<bar>n\<bar> < 2 ^ 53")
  case True
  then have "bitlen \<bar>n\<bar> \<le> 53"
    by (simp add: bitlen_le_iff_power)
  then show ?thesis
    by (simp add: round_to_double_def Let_def)
next
  case False
  with assms have "n = 9007199254740992 \<or> n = - 9007199254740992"
    by (simp add: abs_if split: if_splits)
  moreover have "round_to_double 9007199254740992 = 9007199254740992"
    by code_simp
  moreover have "round_to_double (- 9007199254740992) = - 9007199254740992"
    by code_simp
  ultimately show ?thesis by auto
qed

lemma sint_32_bound: "\<bar>sint (w :: 32 word)\<bar> \<le> 2 ^ 31"
  using sint_ge [of w] sint_lt [of w] by simp

lemma js_add_exact: "\<bar>a + b\<bar> \<le> 2 ^ 53 \<Longrightarrow> js_add a b = a + b"
  by (simp add: js_add_def round_to_double_exact)

lemma js_add_sint:
  "js_add (sint (v :: 32 word)) (sint (w :: 32 word)) = sint v + sint w"
proof -
  have "\<bar>sint v + sint w\<bar> \<le> 2 ^ 31 + 2 ^ 31"
    using sint_32_bound [of v] sint_32_bound [of w] by linarith
  then show ?thesis by (intro js_add_exact) simp
qed

lemma rand_words:
  "rand seed =
     (let seed' = js_add seed 0x6D2B79F5;
          state = (word_of_int seed' :: 32 word);
          t = (state XOR drop_bit 15 state) * (state OR 1);
          t = t XOR (t + (t XOR drop_bit 7 t) * (t OR 61))
      in (real_of_int (uint (t XOR drop_bit 14 t)) / 2 ^ 32, seed'))"
  by (simp add: rand_def Let_def js_xor_def js_or_def js_ushr_def imul_def js_add_sint)


lemma seed_after_exact:
  assumes "\<bar>seed\<bar> \<le> 2 ^ 53" and "\<bar>seed + int k * 0x6D2B79F5\<bar> \<le> 2 ^ 53"
  shows "seed_after k seed = seed + int k * 0x6D2B79F5"
  using assms(2)
proof (induction k)
  case 0
  then show ?case by simp
next
  case (Suc k)
  have between: "\<bar>seed + int k * 0x6D2B79F5\<bar> \<le> 2 ^ 53"
    using assms(1) Suc.prems by simp
  then have ih: "seed_after k seed = seed + int k * 0x6D2B79F5"
    by (rule Suc.IH)
  have "\<bar>seed + int k * 0x6D2B79F5 + 0x6D2B79F5\<bar> \<le> 2 ^ 53"
    using Suc.prems by simp
  then have "js_add (seed + int k * 0x6D2B79F5) 0x6D2B79F5 = seed + int k * 0x6D2B79F5 + 0x6D2B79F5"
    by (rule js_add_exact)
  then show ?case
    by (simp add: ih rand_words Let_def algebra_simps)
qed

lemma js_ushr_range: "0 \<le> js_ushr a k \<and> js_ushr a k < 4294967296"
  using uint_lt2p [of "drop_bit (k mod 32) (word_of_int a :: 32 word)"]
  by (simp add: js_ushr_def)

lemma rand_range: "0 \<le> fst (rand seed) \<and> fst (rand seed) < 1"
proof -
  obtain v where v: "fst (rand seed) = real_of_int (js_ushr v 0) / 4294967296"
    by (simp add: rand_def Let_def)
  have "0 \<le> js_ushr v 0" and "js_ushr v 0 < 4294967296"
    using js_ushr_range [of v 0] by simp_all
  then have "0 \<le> real_of_int (js_ushr v 0)" and "real_of_int (js_ushr v 0) < 4294967296"
    by simp_all
  then show ?thesis
    by (simp add: v)
qed

lemma sum_codes_exact:
  "acc \<ge> 0 \<Longrightarrow> acc + (\<Sum>c\<leftarrow>s. uint c) \<le> 2 ^ 53 \<Longrightarrow>
   foldl (\<lambda>acc char. js_add acc (charCodeAt0 char)) acc s = acc + (\<Sum>c\<leftarrow>s. uint c)"
proof (induction s arbitrary: acc)
  case Nil
  then show ?case by simp
next
  case (Cons c s)
  have nn: "0 \<le> (\<Sum>c\<leftarrow>s. uint c)"
    by (rule sum_list_nonneg) auto
  have "\<bar>acc + uint c\<bar> \<le> 2 ^ 53"
    using Cons.prems nn by simp
  then have e: "js_add acc (charCodeAt0 c) = acc + uint c"
    by (simp add: js_add_exact charCodeAt0_def)
  show ?case
    using Cons.prems Cons.IH [of "acc + uint c"] by (simp add: e)
qed

text \<open>
  C1 (as amended). Let the integer \<open>seed\<close> and the value \<open>seed + (k + 1) * 0x6D2B79F5\<close>
  of the variable after the \<open>(k + 1)\<close>-th call both be within \<open>2 ^ 53\<close> in magnitude.
  Then the \<open>(k + 1)\<close>-th call of the generator made from \<open>seed\<close> works on the 32-bit state
  \<open>(seed + (k + 1) * 0x6D2B79F5) mod 2 ^ 32\<close>, mixes it in two steps of 32-bit
  wrap-around arithmetic, the second of which reads the result \<open>t\<close> of the first, and
  returns \<open>(t xor (t >> 14)) / 2 ^ 32\<close>, a number in \<open>[0, 1)\<close>. A string seed whose
  character codes sum to at most \<open>2 ^ 53\<close> is first replaced by that sum.
\<close>

theorem mulberry32_algorithm:
  assumes "\<bar>seed\<bar> \<le> 2 ^ 53"
    and "\<bar>seed + (int k + 1) * 0x6D2B79F5\<bar> \<le> 2 ^ 53"
    and "(\<Sum>char\<leftarrow>s. uint char) \<le> 2 ^ 53"
  shows "rand (seed_after k seed) =
           (let state = (word_of_int seed :: 32 word) + (of_nat k + 1) * 0x6D2B79F5;
                t = (state XOR drop_bit 15 state) * (state OR 1);
                t = t XOR (t + (t XOR drop_bit 7 t) * (t OR 61))
            in (real_of_int (uint (t XOR drop_bit 14 t)) / 2 ^ 32,
                seed + (int k + 1) * 0x6D2B79F5))
         \<and> 0 \<le> fst (rand (seed_after k seed)) \<and> fst (rand (seed_after k seed)) < 1
         \<and> mulberry32 (Num seed) = seed
         \<and> mulberry32 (Str s) = (\<Sum>char\<leftarrow>s. uint char)"
proof -
  have "\<bar>seed + int k * 0x6D2B79F5\<bar> \<le> 2 ^ 53"
    using assms(1,2) by simp
  with assms(1) have st: "seed_after k seed = seed + int k * 0x6D2B79F5"
    by (rule seed_after_exact)
  have "\<bar>seed + int k * 0x6D2B79F5 + 0x6D2B79F5\<bar> \<le> 2 ^ 53"
    using assms(2) by (simp add: algebra_simps)
  then have ad: "js_add (seed + int k * 0x6D2B79F5) 0x6D2B79F5 = seed + (int k + 1) * 0x6D2B79F5"
    by (simp add: js_add_exact algebra_simps)
  have w: "(word_of_int (seed + (int k + 1) * 0x6D2B79F5) :: 32 word)
             = word_of_int seed + (of_nat k + 1) * 0x6D2B79F5"
    by simp
  have call: "rand (seed_after k seed) =
           (let state = (word_of_int seed :: 32 word) + (of_nat k + 1) * 0x6D2B79F5;
                t = (state XOR drop_bit 15 state) * (state OR 1);
                t = t XOR (t + (t XOR drop_bit 7 t) * (t OR 61))
            in (real_of_int (uint (t XOR drop_bit 14 t)) / 2 ^ 32,
                seed + (int k + 1) * 0x6D2B79F5))"
    unfolding st rand_words ad w Let_def ..
  have str: "mulberry32 (Str s) = (\<Sum>char\<leftarrow>s. uint char)"
    using sum_codes_exact [of 0 s] assms(3) by (simp add: mulberry32_def)
  show ?thesis
    using call rand_range [of "seed_after k seed"] str by (simp add: mulberry32_def)
qed

text \<open>
  The third call of the generator made from 42, the first call of the one made from
  \<open>- (2 ^ 53)\<close>, and the seed of the string \<open>AB\<close>.
\<close>

theorem mulberry32_algorithm_witness:
  "rand (seed_after 2 42) = (57208011 / 67108864, 5494697481)
   \<and> rand (seed_after 0 (- 9007199254740992)) = (572152369 / 2147483648, - 9007197423175179)
   \<and> mulberry32 (Str [65, 66]) = 131"
  using mulberry32_algorithm [of 42 2 "[65, 66]"]
    mulberry32_algorithm [of "- 9007199254740992" 0 "[65, 66]"]
  by simp

text \<open>
  C1 as the specification words it fails twice. From the seed 0 the program's first
  number is \<open>572152369 / 2147483648\<close>, the specification's pseudo-code gives
  \<open>266623925 / 536870912\<close>: its second mixing step reads \<open>state\<close> where the program reads
  \<open>t\<close>. From the seed \<open>2 ^ 53\<close> the sum \<open>seed + 0x6D2B79F5\<close> is odd and is rounded to
  the even number below, so that the new state is not the old one plus
  \<open>0x6D2B79F5\<close> modulo \<open>2 ^ 32\<close>.
\<close>

theorem mulberry32_spec_counterexample:
  "fst (rand (mulberry32 (Num 0))) = 572152369 / 2147483648
   \<and> fst (spec_next 0) = 266623925 / 536870912
   \<and> fst (rand (mulberry32 (Num 0))) \<noteq> fst (spec_next 0)
   \<and> snd (rand (mulberry32 (Num 9007199254740992))) mod 2 ^ 32 = 1831565812
   \<and> (9007199254740992 + 0x6D2B79F5) mod 2 ^ 32 = (1831565813 :: int)"
  by code_simp

section \<open>Properties of the layout worker\<close>

subsection \<open>One placement\<close>

lemma radius_nonempty:
  "data \<noteq> [] \<Longrightarrow>
   radius data item index =
     Some (maxRadius data * sqrt (real index / real (length data)) * sizeScale item)"
  by (simp add: radius_def js_div_def)

lemma radius_empty: "radius [] item index = None"
  by (simp add: radius_def js_div_def)

lemma place_empty: "place [] item index = None"
  by (simp add: place_def radius_empty)

lemma place_nonempty:
  assumes "data \<noteq> []"
  shows "\<exists>c. place data item index = Some c
    \<and> char_x c =
        (maxRadius data * sqrt (real index / real (length data)) * sizeScale item
         + (fst (rand (snd (rand (mulberry32 (holderID item))))) - 0.5)
           * (maxRadius data * 0.9 / real (length data)) * 2 * sizeScale item)
        * cos (angle index + (fst (rand (mulberry32 (holderID item))) - 0.5) * 0.1)
    \<and> char_y c =
        (maxRadius data * sqrt (real index / real (length data)) * sizeScale item
         + (fst (rand (snd (rand (mulberry32 (holderID item))))) - 0.5)
           * (maxRadius data * 0.9 / real (length data)) * 2 * sizeScale item)
        * sin (angle index + (fst (rand (mulberry32 (holderID item))) - 0.5) * 0.1)
    \<and> sizeParameter c = item_size item
    \<and> paramSeed c = convertStringToNumber (holderID item)
    \<and> walletAddress c = holderID item
    \<and> boundingBox c =
        \<lparr>bb_left = char_x c - 600 * item_size item / 2,
         bb_right = char_x c + 600 * item_size item / 2,
         bb_top = char_y c - 600 * item_size item / 2,
         bb_bottom = char_y c + 600 * item_size item / 2,
         bb_width = 600 * item_size item,
         bb_height = 600 * item_size item\<rparr>"
  using assms
  by (simp add: place_def radius_nonempty js_div_def Let_def split_beta)

lemma positions_nth:
  "i < length data \<Longrightarrow>
   map (\<lambda>msg. f (positions msg ! i)) (onmessage data) = [f (place data (data ! i) i)]"
  by (simp add: onmessage_def)

lemma positions_length:
  "map (\<lambda>msg. length (positions msg)) (onmessage data) = [length data]"
  by (simp add: onmessage_def)

text \<open>
  C2. For a list of \<open>n\<close> records and an index \<open>i < n\<close>, the worker puts the character at
  \<open>x = radius * cos angle\<close>, \<open>y = radius * sin angle\<close>, where \<open>angle\<close> is
  \<open>i * pi * (3 - sqrt 5)\<close> plus \<open>(r1 - 0.5) * 0.1\<close> and \<open>radius\<close> is
  \<open>sqrt n * 500 * sqrt (i / n) * (1 + 2 * magnitude)\<close> plus
  \<open>(r2 - 0.5) * 2 * (1 + 2 * magnitude) * (sqrt n * 500 * 0.9 / n)\<close>, \<open>r1\<close> and \<open>r2\<close> being
  the first and the second number of the generator made from the record's identity.
\<close>

theorem layout_position:
  assumes "i < length data"
  shows "\<exists>c. map (\<lambda>msg. positions msg ! i) (onmessage data) = [Some c]
    \<and> (let n = real (length data);
            magnitude = item_size (data ! i);
            (r1, after1) = rand (mulberry32 (holderID (data ! i)));
            (r2, after2) = rand after1;
            theta = real i * (pi * (3 - sqrt 5)) + (r1 - 0.5) * 0.1;
            rho = sqrt n * 500 * sqrt (real i / n) * (1 + 2 * magnitude)
                  + (r2 - 0.5) * 2 * (1 + 2 * magnitude) * (sqrt n * 500 * 0.9 / n)
        in char_x c = rho * cos theta \<and> char_y c = rho * sin theta)"
proof -
  from assms have ne: "data \<noteq> []" by auto
  obtain c where c: "place data (data ! i) i = Some c"
    and x: "char_x c =
        (maxRadius data * sqrt (real i / real (length data)) * sizeScale (data ! i)
         + (fst (rand (snd (rand (mulberry32 (holderID (data ! i)))))) - 0.5)
           * (maxRadius data * 0.9 / real (length data)) * 2 * sizeScale (data ! i))
        * cos (angle i + (fst (rand (mulberry32 (holderID (data ! i)))) - 0.5) * 0.1)"
    and y: "char_y c =
        (maxRadius data * sqrt (real i / real (length data)) * sizeScale (data ! i)
         + (fst (rand (snd (rand (mulberry32 (holderID (data ! i)))))) - 0.5)
           * (maxRadius data * 0.9 / real (length data)) * 2 * sizeScale (data ! i))
        * sin (angle i + (fst (rand (mulberry32 (holderID (data ! i)))) - 0.5) * 0.1)"
    using place_nonempty [OF ne, of "data ! i" i] by blast
  have m: "map (\<lambda>msg. positions msg ! i) (onmessage data) = [Some c]"
    using positions_nth [OF assms, of "\<lambda>p. p"] c by simp
  have th: "angle i + (r1 - 0.5) * 0.1 = real i * (pi * (3 - sqrt 5)) + (r1 - 0.5) * 0.1" for r1
    by (simp add: angle_def goldenAngle_def)
  have rh: "maxRadius data * sqrt (real i / real (length data)) * sizeScale (data ! i)
         + (r2 - 0.5) * (maxRadius data * 0.9 / real (length data)) * 2 * sizeScale (data ! i)
       = sqrt (real (length data)) * 500 * sqrt (real i / real (length data))
           * (1 + 2 * item_size (data ! i))
         + (r2 - 0.5) * 2 * (1 + 2 * item_size (data ! i))
           * (sqrt (real (length data)) * 500 * 0.9 / real (length data))" for r2
    by (simp add: maxRadius_def sizeScale_def mult.commute mult.left_commute)
      (simp add: algebra_simps)
  show ?thesis
    using m x y unfolding th rh
    by (simp add: Let_def split_beta)
qed

text \<open>The second of the two records \<open>A\<close> (size 0) and \<open>B\<close> (size 1).\<close>

theorem layout_position_witness:
  "\<exists>c. map (\<lambda>msg. positions msg ! 1)
           (onmessage [\<lparr>holderID = Str [65], item_size = 0\<rparr>, \<lparr>holderID = Str [66], item_size = 1\<rparr>])
         = [Some c]
     \<and> char_x c = (sqrt 2 * 500 * sqrt (1 / 2) * 3
                    + (20108899 / 4294967296 - 0.5) * 2 * 3 * (sqrt 2 * 500 * 0.9 / 2))
                   * cos (pi * (3 - sqrt 5) + (623861541 / 4294967296 - 0.5) * 0.1)
     \<and> char_y c = (sqrt 2 * 500 * sqrt (1 / 2) * 3
                    + (20108899 / 4294967296 - 0.5) * 2 * 3 * (sqrt 2 * 500 * 0.9 / 2))
                   * sin (pi * (3 - sqrt 5) + (623861541 / 4294967296 - 0.5) * 0.1)"
proof -
  have r1: "rand (mulberry32 (Str [66])) = (623861541 / 4294967296, 1831565879)"
    by code_simp
  have r2: "rand 1831565879 = (20108899 / 4294967296, 3663131692)"
    by code_simp
  show ?thesis
    using layout_position
      [of 1 "[\<lparr>holderID = Str [65], item_size = 0\<rparr>, \<lparr>holderID = Str [66], item_size = 1\<rparr>]"]
    by (simp add: r1 r2 Let_def)
qed

text \<open>
  C5. A run of the worker is the value of \<open>onmessage\<close> at the list received: the handler
  reads nothing else and each generator is made anew, so that two runs on one list give
  one result. The position and the bounding box of the character at an index depend
  only on the index, the length of the list, the size of the record at that index and
  the seed of its identity: two lists that agree on these give the same position and
  box there.
\<close>

theorem layout_deterministic:
  assumes "length data' = length data"
    and "i < length data"
    and "item_size (data' ! i) = item_size (data ! i)"
    and "convertStringToNumber (holderID (data' ! i)) = convertStringToNumber (holderID (data ! i))"
  shows "map (\<lambda>msg. map_option (\<lambda>c. (char_x c, char_y c, boundingBox c)) (positions msg ! i))
           (onmessage data')
         = map (\<lambda>msg. map_option (\<lambda>c. (char_x c, char_y c, boundingBox c)) (positions msg ! i))
           (onmessage data)"
proof -
  from assms have ne: "data \<noteq> []" and ne': "data' \<noteq> []" by auto
  have i': "i < length data'" using assms by simp
  have s: "sizeScale (data' ! i) = sizeScale (data ! i)"
    using assms(3) by (simp add: sizeScale_def)
  have g: "mulberry32 (holderID (data' ! i)) = mulberry32 (holderID (data ! i))"
    using assms(4) by (simp add: mulberry32_def)
  have r: "maxRadius data' = maxRadius data"
    using assms(1) by (simp add: maxRadius_def)
  obtain c where c: "place data (data ! i) i = Some c"
    and cx: "char_x c =
        (maxRadius data * sqrt (real i / real (length data)) * sizeScale (data ! i)
         + (fst (rand (snd (rand (mulberry32 (holderID (data ! i)))))) - 0.5)
           * (maxRadius data * 0.9 / real (length data)) * 2 * sizeScale (data ! i))
        * cos (angle i + (fst (rand (mulberry32 (holderID (data ! i)))) - 0.5) * 0.1)"
    and cy: "char_y c =
        (maxRadius data * sqrt (real i / real (length data)) * sizeScale (data ! i)
         + (fst (rand (snd (rand (mulberry32 (holderID (data ! i)))))) - 0.5)
           * (maxRadius data * 0.9 / real (length data)) * 2 * sizeScale (data ! i))
        * sin (angle i + (fst (rand (mulberry32 (holderID (data ! i)))) - 0.5) * 0.1)"
    and cb: "boundingBox c =
        \<lparr>bb_left = char_x c - 600 * item_size (data ! i) / 2,
         bb_right = char_x c + 600 * item_size (data ! i) / 2,
         bb_top = char_y c - 600 * item_size (data ! i) / 2,
         bb_bottom = char_y c + 600 * item_size (data ! i) / 2,
         bb_width = 600 * item_size (data ! i),
         bb_height = 600 * item_size (data ! i)\<rparr>"
    using place_nonempty [OF ne, of "data ! i" i] by blast
  obtain c' where c': "place data' (data' ! i) i = Some c'"
    and cx': "char_x c' =
        (maxRadius data' * sqrt (real i / real (length data')) * sizeScale (data' ! i)
         + (fst (rand (snd (rand (mulberry32 (holderID (data' ! i)))))) - 0.5)
           * (maxRadius data' * 0.9 / real (length data')) * 2 * sizeScale (data' ! i))
        * cos (angle i + (fst (rand (mulberry32 (holderID (data' ! i)))) - 0.5) * 0.1)"
    and cy': "char_y c' =
        (maxRadius data' * sqrt (real i / real (length data')) * sizeScale (data' ! i)
         + (fst (rand (snd (rand (mulberry32 (holderID (data' ! i)))))) - 0.5)
           * (maxRadius data' * 0.9 / real (length data')) * 2 * sizeScale (data' ! i))
        * sin (angle i + (fst (rand (mulberry32 (holderID (data' ! i)))) - 0.5) * 0.1)"
    and cb': "boundingBox c' =
        \<lparr>bb_left = char_x c' - 600 * item_size (data' ! i) / 2,
         bb_right = char_x c' + 600 * item_size (data' ! i) / 2,
         bb_top = char_y c' - 600 * item_size (data' ! i) / 2,
         bb_bottom = char_y c' + 600 * item_size (data' ! i) / 2,
         bb_width = 600 * item_size (data' ! i),
         bb_height = 600 * item_size (data' ! i)\<rparr>"
    using place_nonempty [OF ne', of "data' ! i" i] by blast
  have ex: "char_x c' = char_x c"
    unfolding cx cx' s g r assms(1) ..
  have ey: "char_y c' = char_y c"
    unfolding cy cy' s g r assms(1) ..
  have eb: "boundingBox c' = boundingBox c"
    unfolding cb cb' ex ey assms(3) ..
  show ?thesis
    unfolding positions_nth [OF assms(2)] positions_nth [OF i'] c c'
    by (simp add: ex ey eb)
qed

text \<open>
  Two lists that differ in their first records and in the identity of the second
  (\<open>!!\<close> and \<open>B\<close> have the same sum of character codes).
\<close>

theorem layout_deterministic_witness:
  "map (\<lambda>msg. map_option (\<lambda>c. (char_x c, char_y c, boundingBox c)) (positions msg ! 1))
     (onmessage [\<lparr>holderID = Str [90], item_size = 0.5\<rparr>, \<lparr>holderID = Str [33, 33], item_size = 1\<rparr>])
   = map (\<lambda>msg. map_option (\<lambda>c. (char_x c, char_y c, boundingBox c)) (positions msg ! 1))
     (onmessage [\<lparr>holderID = Str [65], item_size = 0\<rparr>, \<lparr>holderID = Str [66], item_size = 1\<rparr>])"
proof -
  have s: "convertStringToNumber (Str [33, 33]) = convertStringToNumber (Str [66])"
    by code_simp
  show ?thesis
    by (rule layout_deterministic) (simp_all del: convertStringToNumber.simps add: s)
qed

text \<open>
  C6. For the empty list the worker answers the empty list of placements. The callback,
  which would divide by zero there, is not evaluated; and for no list at all does an
  entry of the answer come from a division by zero.
\<close>

theorem layout_empty:
  "onmessage [] = [\<lparr>positions = [], isComplete = True\<rparr>]
   \<and> place [] item index = None
   \<and> None \<notin> set (concat (map positions (onmessage data)))"
proof -
  have "None \<notin> set (map (\<lambda>(item, index). place data item index) (zip data [0..<length data]))"
  proof
    assume "None \<in> set (map (\<lambda>(item, index). place data item index) (zip data [0..<length data]))"
    then obtain item' index' where mem: "(item', index') \<in> set (zip data [0..<length data])"
      and eq: "None = place data item' index'"
      by auto
    from mem have "item' \<in> set data"
      by (rule set_zip_leftD)
    then have "data \<noteq> []" by auto
    from place_nonempty [OF this, of item' index'] eq show False by auto
  qed
  then have "None \<notin> set (concat (map positions (onmessage data)))"
    by (simp add: onmessage_def)
  then show ?thesis
    by (simp add: onmessage_def place_empty)
qed

text \<open>
  C9 (as amended). In the scenario of the records \<open>A\<close> and \<open>B\<close> (\<open>n = 2\<close>), the radius at
  index 0, before the perturbation is added, is 0 whatever the size \<open>m\<close> of \<open>A\<close>, so
  that \<open>A\<close> is placed at the radius of its perturbation alone,
  \<open>(r2 - 0.5) * (maxRadius * 0.9 / 2) * 2 * (1 + m * 2)\<close>; the radius at index 1,
  before the perturbation is added, is \<open>maxRadius * sqrt 0.5 * 3\<close>, and \<open>maxRadius\<close> is
  \<open>sqrt 2 * 500\<close>.
\<close>

theorem scenario_radius:
  "radius [\<lparr>holderID = Str [65], item_size = m\<rparr>, \<lparr>holderID = Str [66], item_size = 1\<rparr>]
      \<lparr>holderID = Str [65], item_size = m\<rparr> 0 = Some 0
   \<and> (\<exists>c. map (\<lambda>msg. positions msg ! 0)
             (onmessage [\<lparr>holderID = Str [65], item_size = m\<rparr>, \<lparr>holderID = Str [66], item_size = 1\<rparr>])
           = [Some c]
         \<and> char_x c = (1640896415 / 4294967296 - 0.5) * (sqrt 2 * 500 * 0.9 / 2) * 2 * (1 + m * 2)
                       * cos ((115573351 / 1073741824 - 0.5) * 0.1)
         \<and> char_y c = (1640896415 / 4294967296 - 0.5) * (sqrt 2 * 500 * 0.9 / 2) * 2 * (1 + m * 2)
                       * sin ((115573351 / 1073741824 - 0.5) * 0.1))
   \<and> radius [\<lparr>holderID = Str [65], item_size = 0\<rparr>, \<lparr>holderID = Str [66], item_size = 1\<rparr>]
      \<lparr>holderID = Str [66], item_size = 1\<rparr> 1
     = Some (maxRadius [\<lparr>holderID = Str [65], item_size = 0\<rparr>, \<lparr>holderID = Str [66], item_size = 1\<rparr>]
             * sqrt 0.5 * 3)
   \<and> maxRadius [\<lparr>holderID = Str [65], item_size = 0\<rparr>, \<lparr>holderID = Str [66], item_size = 1\<rparr>]
     = sqrt 2 * 500"
proof -
  let ?A = "\<lparr>holderID = Str [65], item_size = m\<rparr>"
  let ?data = "[?A, \<lparr>holderID = Str [66], item_size = 1\<rparr>]"
  have r1: "rand (mulberry32 (Str [65])) = (115573351 / 1073741824, 1831565878)"
    by code_simp
  have r2: "rand 1831565878 = (1640896415 / 4294967296, 3663131691)"
    by code_simp
  have ne: "?data \<noteq> []" by simp
  obtain c where c: "place ?data ?A 0 = Some c"
    and x: "char_x c =
        (maxRadius ?data * sqrt (real 0 / real (length ?data)) * sizeScale ?A
         + (fst (rand (snd (rand (mulberry32 (holderID ?A))))) - 0.5)
           * (maxRadius ?data * 0.9 / real (length ?data)) * 2 * sizeScale ?A)
        * cos (angle 0 + (fst (rand (mulberry32 (holderID ?A))) - 0.5) * 0.1)"
    and y: "char_y c =
        (maxRadius ?data * sqrt (real 0 / real (length ?data)) * sizeScale ?A
         + (fst (rand (snd (rand (mulberry32 (holderID ?A))))) - 0.5)
           * (maxRadius ?data * 0.9 / real (length ?data)) * 2 * sizeScale ?A)
        * sin (angle 0 + (fst (rand (mulberry32 (holderID ?A))) - 0.5) * 0.1)"
    using place_nonempty [OF ne, of ?A 0] by blast
  have m: "map (\<lambda>msg. positions msg ! 0) (onmessage ?data) = [Some c]"
    using positions_nth [of 0 ?data "\<lambda>p. p"] c by simp
  have x': "char_x c = (1640896415 / 4294967296 - 0.5) * (sqrt 2 * 500 * 0.9 / 2) * 2 * (1 + m * 2)
                       * cos ((115573351 / 1073741824 - 0.5) * 0.1)"
    using x by (simp add: r1 r2 maxRadius_def sizeScale_def angle_def)
  have y': "char_y c = (1640896415 / 4294967296 - 0.5) * (sqrt 2 * 500 * 0.9 / 2) * 2 * (1 + m * 2)
                       * sin ((115573351 / 1073741824 - 0.5) * 0.1)"
    using y by (simp add: r1 r2 maxRadius_def sizeScale_def angle_def)
  have placed: "\<exists>c. map (\<lambda>msg. positions msg ! 0) (onmessage ?data) = [Some c]
         \<and> char_x c = (1640896415 / 4294967296 - 0.5) * (sqrt 2 * 500 * 0.9 / 2) * 2 * (1 + m * 2)
                       * cos ((115573351 / 1073741824 - 0.5) * 0.1)
         \<and> char_y c = (1640896415 / 4294967296 - 0.5) * (sqrt 2 * 500 * 0.9 / 2) * 2 * (1 + m * 2)
                       * sin ((115573351 / 1073741824 - 0.5) * 0.1)"
    by (intro exI [of _ c] conjI) (fact m, fact x', fact y')
  have rest: "radius ?data ?A 0 = Some 0
   \<and> radius [\<lparr>holderID = Str [65], item_size = 0\<rparr>, \<lparr>holderID = Str [66], item_size = 1\<rparr>]
      \<lparr>holderID = Str [66], item_size = 1\<rparr> 1
     = Some (maxRadius [\<lparr>holderID = Str [65], item_size = 0\<rparr>, \<lparr>holderID = Str [66], item_size = 1\<rparr>]
             * sqrt 0.5 * 3)
   \<and> maxRadius [\<lparr>holderID = Str [65], item_size = 0\<rparr>, \<lparr>holderID = Str [66], item_size = 1\<rparr>]
     = sqrt 2 * 500"
    by (simp add: radius_def js_div_def maxRadius_def sizeScale_def)
  from rest placed show ?thesis by blast
qed

text \<open>
  C9 as the specification words it fails: the character placed at index 0 is not at
  radius 0. For \<open>A\<close> of size 0 the square of its distance from the origin is
  \<open>(506587233 / 4294967296)\<^sup>2 * 405000\<close>, more than \<open>75\<^sup>2\<close>.
\<close>

theorem scenario_radius_counterexample:
  "\<exists>c. map (\<lambda>msg. positions msg ! 0)
          (onmessage [\<lparr>holderID = Str [65], item_size = 0\<rparr>, \<lparr>holderID = Str [66], item_size = 1\<rparr>])
        = [Some c]
     \<and> (char_x c)\<^sup>2 + (char_y c)\<^sup>2 = (506587233 / 4294967296)\<^sup>2 * 405000
     \<and> (char_x c)\<^sup>2 + (char_y c)\<^sup>2 > 75\<^sup>2"
proof -
  let ?A = "\<lparr>holderID = Str [65], item_size = 0\<rparr>"
  let ?data = "[?A, \<lparr>holderID = Str [66], item_size = 1\<rparr>]"
  have r1: "rand (mulberry32 (Str [65])) = (115573351 / 1073741824, 1831565878)"
    by code_simp
  have r2: "rand 1831565878 = (1640896415 / 4294967296, 3663131691)"
    by code_simp
  have ne: "?data \<noteq> []" by simp
  obtain c where c: "place ?data ?A 0 = Some c"
    and x: "char_x c =
        (maxRadius ?data * sqrt (real 0 / real (length ?data)) * sizeScale ?A
         + (fst (rand (snd (rand (mulberry32 (holderID ?A))))) - 0.5)
           * (maxRadius ?data * 0.9 / real (length ?data)) * 2 * sizeScale ?A)
        * cos (angle 0 + (fst (rand (mulberry32 (holderID ?A))) - 0.5) * 0.1)"
    and y: "char_y c =
        (maxRadius ?data * sqrt (real 0 / real (length ?data)) * sizeScale ?A
         + (fst (rand (snd (rand (mulberry32 (holderID ?A))))) - 0.5)
           * (maxRadius ?data * 0.9 / real (length ?data)) * 2 * sizeScale ?A)
        * sin (angle 0 + (fst (rand (mulberry32 (holderID ?A))) - 0.5) * 0.1)"
    using place_nonempty [OF ne, of ?A 0] by blast
  define rho :: real where "rho = (1640896415 / 4294967296 - 0.5) * (sqrt 2 * 500 * 0.9 / 2) * 2"
  define theta :: real where "theta = (115573351 / 1073741824 - 0.5) * 0.1"
  have x': "char_x c = rho * cos theta"
    using x by (simp add: r1 r2 maxRadius_def sizeScale_def angle_def rho_def theta_def)
  have y': "char_y c = rho * sin theta"
    using y by (simp add: r1 r2 maxRadius_def sizeScale_def angle_def rho_def theta_def)
  have "(rho * cos theta)\<^sup>2 + (rho * sin theta)\<^sup>2
          = rho\<^sup>2 * ((cos theta)\<^sup>2 + (sin theta)\<^sup>2)"
    by (simp only: power_mult_distrib distrib_left)
  also have "\<dots> = rho\<^sup>2"
    by simp
  finally have d: "(char_x c)\<^sup>2 + (char_y c)\<^sup>2 = rho\<^sup>2"
    by (simp only: x' y')
  have "rho = - (506587233 / 4294967296) * (sqrt 2 * 450)"
    by (simp add: rho_def)
  then have "rho\<^sup>2 = (506587233 / 4294967296)\<^sup>2 * ((sqrt 2)\<^sup>2 * 450\<^sup>2)"
    by (simp only: power_mult_distrib power2_minus)
  then have v: "rho\<^sup>2 = (506587233 / 4294967296)\<^sup>2 * 405000"
    by simp
  have big: "(506587233 / 4294967296 :: real)\<^sup>2 * 405000 > 75\<^sup>2"
    by (simp add: power2_eq_square)
  have m: "map (\<lambda>msg. positions msg ! 0) (onmessage ?data) = [Some c]"
    using positions_nth [of 0 ?data "\<lambda>p. p"] c by simp
  have d': "(char_x c)\<^sup>2 + (char_y c)\<^sup>2 = (506587233 / 4294967296)\<^sup>2 * 405000"
    using d v by (rule trans)
  have big': "(char_x c)\<^sup>2 + (char_y c)\<^sup>2 > 75\<^sup>2"
    using big by (simp only: d')
  show ?thesis
    by (intro exI [of _ c] conjI) (fact m, fact d', fact big')
qed

text \<open>
  C10. For a list of \<open>m\<close> records the worker posts one message: its flag \<open>isComplete\<close>
  is true and its list has \<open>m\<close> entries, the \<open>i\<close>-th of which carries the identity, the
  size and the seed of the \<open>i\<close>-th record and a bounding box of width and height
  \<open>600 * size\<close> centred on the character's position.
\<close>

theorem worker_response:
  "\<exists>ps. onmessage data = [\<lparr>positions = ps, isComplete = True\<rparr>]
     \<and> length ps = length data
     \<and> (\<forall>i<length data. \<exists>c. ps ! i = Some c
          \<and> walletAddress c = holderID (data ! i)
          \<and> sizeParameter c = item_size (data ! i)
          \<and> paramSeed c = convertStringToNumber (holderID (data ! i))
          \<and> bb_width (boundingBox c) = 600 * item_size (data ! i)
          \<and> bb_height (boundingBox c) = 600 * item_size (data ! i)
          \<and> (bb_left (boundingBox c) + bb_right (boundingBox c)) / 2 = char_x c
          \<and> (bb_top (boundingBox c) + bb_bottom (boundingBox c)) / 2 = char_y c
          \<and> bb_right (boundingBox c) - bb_left (boundingBox c) = bb_width (boundingBox c)
          \<and> bb_bottom (boundingBox c) - bb_top (boundingBox c) = bb_height (boundingBox c))"
proof -
  let ?ps = "map (\<lambda>(item, index). place data item index) (zip data [0..<length data])"
  have 1: "onmessage data = [\<lparr>positions = ?ps, isComplete = True\<rparr>]"
    by (simp add: onmessage_def)
  have 2: "length ?ps = length data" by simp
  have 3: "\<exists>c. ?ps ! i = Some c
          \<and> walletAddress c = holderID (data ! i)
          \<and> sizeParameter c = item_size (data ! i)
          \<and> paramSeed c = convertStringToNumber (holderID (data ! i))
          \<and> bb_width (boundingBox c) = 600 * item_size (data ! i)
          \<and> bb_height (boundingBox c) = 600 * item_size (data ! i)
          \<and> (bb_left (boundingBox c) + bb_right (boundingBox c)) / 2 = char_x c
          \<and> (bb_top (boundingBox c) + bb_bottom (boundingBox c)) / 2 = char_y c
          \<and> bb_right (boundingBox c) - bb_left (boundingBox c) = bb_width (boundingBox c)
          \<and> bb_bottom (boundingBox c) - bb_top (boundingBox c) = bb_height (boundingBox c)"
    if "i < length data" for i
  proof -
    from that have ne: "data \<noteq> []" by auto
    have n: "?ps ! i = place data (data ! i) i"
      using that by simp
    obtain c where c: "place data (data ! i) i = Some c"
      and w: "walletAddress c = holderID (data ! i)"
      and s: "sizeParameter c = item_size (data ! i)"
      and p: "paramSeed c = convertStringToNumber (holderID (data ! i))"
      and b: "boundingBox c =
        \<lparr>bb_left = char_x c - 600 * item_size (data ! i) / 2,
         bb_right = char_x c + 600 * item_size (data ! i) / 2,
         bb_top = char_y c - 600 * item_size (data ! i) / 2,
         bb_bottom = char_y c + 600 * item_size (data ! i) / 2,
         bb_width = 600 * item_size (data ! i),
         bb_height = 600 * item_size (data ! i)\<rparr>"
      using place_nonempty [OF ne, of "data ! i" i] by blast
    show ?thesis
      unfolding n c using w s p by (simp add: b)
  qed
  from 1 2 3 show ?thesis by blast
qed

text \<open>The message for the records \<open>A\<close> and \<open>B\<close>, and its entry for \<open>B\<close>.\<close>

theorem worker_response_witness:
  "\<exists>ps. onmessage [\<lparr>holderID = Str [65], item_size = 0\<rparr>, \<lparr>holderID = Str [66], item_size = 1\<rparr>]
          = [\<lparr>positions = ps, isComplete = True\<rparr>]
     \<and> length ps = 2
     \<and> (\<exists>c. ps ! 1 = Some c
          \<and> walletAddress c = Str [66]
          \<and> sizeParameter c = 1
          \<and> paramSeed c = 66
          \<and> bb_width (boundingBox c) = 600
          \<and> bb_height (boundingBox c) = 600
          \<and> bb_left (boundingBox c) = char_x c - 300
          \<and> bb_bottom (boundingBox c) = char_y c + 300)"
proof -
  let ?data = "[\<lparr>holderID = Str [65], item_size = 0\<rparr>, \<lparr>holderID = Str [66], item_size = 1\<rparr>]"
  have s: "convertStringToNumber (Str [66]) = 66"
    by code_simp
  have one: "1 < length ?data"
    by simp
  obtain ps where ps: "onmessage ?data = [\<lparr>positions = ps, isComplete = True\<rparr>]"
    and len: "length ps = length ?data"
    and all: "\<forall>i<length ?data. \<exists>c. ps ! i = Some c
          \<and> walletAddress c = holderID (?data ! i)
          \<and> sizeParameter c = item_size (?data ! i)
          \<and> paramSeed c = convertStringToNumber (holderID (?data ! i))
          \<and> bb_width (boundingBox c) = 600 * item_size (?data ! i)
          \<and> bb_height (boundingBox c) = 600 * item_size (?data ! i)
          \<and> (bb_left (boundingBox c) + bb_right (boundingBox c)) / 2 = char_x c
          \<and> (bb_top (boundingBox c) + bb_bottom (boundingBox c)) / 2 = char_y c
          \<and> bb_right (boundingBox c) - bb_left (boundingBox c) = bb_width (boundingBox c)
          \<and> bb_bottom (boundingBox c) - bb_top (boundingBox c) = bb_height (boundingBox c)"
    using worker_response [of ?data] by blast
  from all one obtain c where c: "ps ! 1 = Some c"
    and w: "walletAddress c = holderID (?data ! 1)"
    and z: "sizeParameter c = item_size (?data ! 1)"
    and p: "paramSeed c = convertStringToNumber (holderID (?data ! 1))"
    and bw: "bb_width (boundingBox c) = 600 * item_size (?data ! 1)"
    and bh: "bb_height (boundingBox c) = 600 * item_size (?data ! 1)"
    and cx: "(bb_left (boundingBox c) + bb_right (boundingBox c)) / 2 = char_x c"
    and cy: "(bb_top (boundingBox c) + bb_bottom (boundingBox c)) / 2 = char_y c"
    and ex: "bb_right (boundingBox c) - bb_left (boundingBox c) = bb_width (boundingBox c)"
    and ey: "bb_bottom (boundingBox c) - bb_top (boundingBox c) = bb_height (boundingBox c)"
    by blast
  have w': "walletAddress c = Str [66]" using w by simp
  have z': "sizeParameter c = 1" using z by simp
  have p': "paramSeed c = 66" using p by (simp del: convertStringToNumber.simps add: s)
  have bw': "bb_width (boundingBox c) = 600" using bw by simp
  have bh': "bb_height (boundingBox c) = 600" using bh by simp
  have l: "bb_left (boundingBox c) = char_x c - 300"
    using cx ex bw' by (simp add: field_simps)
  have b: "bb_bottom (boundingBox c) = char_y c + 300"
    using cy ey bh' by (simp add: field_simps)
  have len': "length ps = 2" using len by simp
  show ?thesis
    using ps len' c w' z' p' bw' bh' l b by blast
qed

section \<open>Properties of the viewport\<close>

lemma toScreen_eq:
  "toScreen vb p = (960 + vb_x vb + fst p * vb_scale vb, 540 + vb_y vb + snd p * vb_scale vb)"
  by (simp add: toScreen_def FIXED_VIEWPORT_def)

text \<open>
  The arithmetic of the updater that the wheel and the pinch handlers pass to
  \<open>setViewBox\<close>: with the offset it computes, a point shown at \<open>sx\<close> stays there.
\<close>

lemma anchor_kept:
  fixes s f sx cx ox px :: real
  assumes "s \<noteq> 0" and "cx + ox + px * s = sx"
  shows "cx + (ox - (sx - cx - ox) / s * (f - 1) * s) + px * (s * f) = sx"
proof -
  have "(sx - cx - ox) / s = px"
    using assms by (simp add: field_simps)
  then show ?thesis
    using assms by (simp add: algebra_simps)
qed

lemma toScreen_anchor:
  assumes "vb_scale prev \<noteq> 0" and "toScreen prev p = (sx, sy)"
  shows "toScreen \<lparr>vb_x = vb_x prev - (sx - 960 - vb_x prev) / vb_scale prev * (f - 1) * vb_scale prev,
                   vb_y = vb_y prev - (sy - 540 - vb_y prev) / vb_scale prev * (f - 1) * vb_scale prev,
                   vb_scale = vb_scale prev * f\<rparr> p = (sx, sy)"
proof -
  from assms(2) have x: "960 + vb_x prev + fst p * vb_scale prev = sx"
    and y: "540 + vb_y prev + snd p * vb_scale prev = sy"
    by (simp_all add: toScreen_eq)
  note a = anchor_kept [OF assms(1) x, of f] and b = anchor_kept [OF assms(1) y, of f]
  show ?thesis
    by (simp only: toScreen_eq viewBox.select_convs a b)
qed

lemma handleWheel_Some:
  assumes "vb_scale prev \<noteq> 0"
    and "f = 1 - sgn (deltaY e) * (if isMobile then 2 else 0.14)"
  shows "handleWheel isMobile e prev =
     Some \<lparr>vb_x = vb_x prev - (clientX e - 960 - vb_x prev) / vb_scale prev * (f - 1) * vb_scale prev,
           vb_y = vb_y prev - (clientY e - 540 - vb_y prev) / vb_scale prev * (f - 1) * vb_scale prev,
           vb_scale = vb_scale prev * f\<rparr>"
  using assms(1) unfolding assms(2)
  by (simp add: handleWheel_def Let_def js_div_def ZOOM_SPEED_def FIXED_VIEWPORT_def)

lemma handleTouchMove_pinch:
  assumes "vb_scale (viewBox st) \<noteq> 0" and "lastTouchDistance st = Some previous"
    and "previous \<noteq> 0"
    and "distance = sqrt ((clientX t0 - clientX t1) * (clientX t0 - clientX t1)
                          + (clientY t0 - clientY t1) * (clientY t0 - clientY t1))"
    and "f = 1 + (distance / previous - 1) * 2"
    and "prev = viewBox st"
  shows "handleTouchMove isMobile [t0, t1] st =
      Some (st\<lparr>viewBox :=
                    \<lparr>vb_x = vb_x prev - ((clientX t0 + clientX t1) / 2 - 960 - vb_x prev) / vb_scale prev
                              * (f - 1) * vb_scale prev,
                     vb_y = vb_y prev - ((clientY t0 + clientY t1) / 2 - 540 - vb_y prev) / vb_scale prev
                              * (f - 1) * vb_scale prev,
                     vb_scale = vb_scale prev * f\<rparr>,
                  lastTouchDistance := Some distance\<rparr>)"
  using assms(1-3) unfolding assms(4-6)
  by (simp add: handleTouchMove_def Let_def js_div_def ZOOM_SPEED_def FIXED_VIEWPORT_def)

lemma handleTouchMove_first:
  assumes "lastTouchDistance st = None \<or> lastTouchDistance st = Some 0"
  shows "handleTouchMove isMobile [t0, t1] st =
     Some (st\<lparr>lastTouchDistance :=
              Some (sqrt ((clientX t0 - clientX t1) * (clientX t0 - clientX t1)
                          + (clientY t0 - clientY t1) * (clientY t0 - clientY t1)))\<rparr>)"
  using assms
  by (auto simp: handleTouchMove_def Let_def)

lemma desktop_factor_pos: "0 < 1 - sgn (d :: real) * 0.14"
  by (cases "d = 0"; cases "d < 0") (simp_all add: sgn_if)

lemma mobile_factor_pos: "0 < 1 - sgn (d :: real) * 2 \<longleftrightarrow> d \<le> 0"
  by (cases "d = 0"; cases "d < 0") (simp_all add: sgn_if)

text \<open>
  C3. From a transform of positive scale, a wheel step at a screen point and a pinch
  step about the midpoint of two touches keep the point of the plane shown at that
  screen point where it is: whatever the transform showed there before the step, the
  new transform shows there too.
\<close>

theorem zoom_anchor:
  assumes "vb_scale prev > 0" and "viewBox st = prev"
  shows "(\<exists>vb. handleWheel isMobile e prev = Some vb
            \<and> (\<forall>p. toScreen prev p = (clientX e, clientY e)
                   \<longrightarrow> toScreen vb p = (clientX e, clientY e)))
       \<and> (\<exists>st'. handleTouchMove isMobile [t0, t1] st = Some st'
            \<and> (\<forall>p. toScreen prev p = ((clientX t0 + clientX t1) / 2, (clientY t0 + clientY t1) / 2)
                   \<longrightarrow> toScreen (viewBox st') p
                       = ((clientX t0 + clientX t1) / 2, (clientY t0 + clientY t1) / 2)))"
proof
  have nz: "vb_scale prev \<noteq> 0" using assms(1) by simp
  show "\<exists>vb. handleWheel isMobile e prev = Some vb
            \<and> (\<forall>p. toScreen prev p = (clientX e, clientY e)
                   \<longrightarrow> toScreen vb p = (clientX e, clientY e))"
    unfolding handleWheel_Some [OF nz refl]
    using toScreen_anchor [OF nz] by blast
next
  have nz: "vb_scale prev \<noteq> 0" using assms(1) by simp
  have nz': "vb_scale (viewBox st) \<noteq> 0" using assms by simp
  show "\<exists>st'. handleTouchMove isMobile [t0, t1] st = Some st'
            \<and> (\<forall>p. toScreen prev p = ((clientX t0 + clientX t1) / 2, (clientY t0 + clientY t1) / 2)
                   \<longrightarrow> toScreen (viewBox st') p
                       = ((clientX t0 + clientX t1) / 2, (clientY t0 + clientY t1) / 2))"
  proof (cases "lastTouchDistance st = None \<or> lastTouchDistance st = Some 0")
    case True
    show ?thesis
      unfolding handleTouchMove_first [OF True] using assms(2) by simp
  next
    case False
    then obtain previous where p: "lastTouchDistance st = Some previous" "previous \<noteq> 0"
      by auto
    define distance where "distance = sqrt ((clientX t0 - clientX t1) * (clientX t0 - clientX t1)
                          + (clientY t0 - clientY t1) * (clientY t0 - clientY t1))"
    define f where "f = 1 + (distance / previous - 1) * 2"
    define vb where "vb =
        \<lparr>vb_x = vb_x prev - ((clientX t0 + clientX t1) / 2 - 960 - vb_x prev) / vb_scale prev
                              * (f - 1) * vb_scale prev,
         vb_y = vb_y prev - ((clientY t0 + clientY t1) / 2 - 540 - vb_y prev) / vb_scale prev
                              * (f - 1) * vb_scale prev,
         vb_scale = vb_scale prev * f\<rparr>"
    have eq: "handleTouchMove isMobile [t0, t1] st
                = Some (st\<lparr>viewBox := vb, lastTouchDistance := Some distance\<rparr>)"
      unfolding vb_def
      by (rule handleTouchMove_pinch [OF nz' p distance_def f_def assms(2) [symmetric]])
    have sel: "viewBox (st\<lparr>viewBox := vb, lastTouchDistance := Some distance\<rparr>) = vb"
      by simp
    show ?thesis
    proof (intro exI conjI allI impI)
      show "handleTouchMove isMobile [t0, t1] st
              = Some (st\<lparr>viewBox := vb, lastTouchDistance := Some distance\<rparr>)"
        by (rule eq)
    next
      fix p
      assume "toScreen prev p = ((clientX t0 + clientX t1) / 2, (clientY t0 + clientY t1) / 2)"
      from toScreen_anchor [OF nz this, of f]
      have "toScreen vb p = ((clientX t0 + clientX t1) / 2, (clientY t0 + clientY t1) / 2)"
        unfolding vb_def .
      then show "toScreen (viewBox (st\<lparr>viewBox := vb, lastTouchDistance := Some distance\<rparr>)) p
              = ((clientX t0 + clientX t1) / 2, (clientY t0 + clientY t1) / 2)"
        by (simp only: sel)
    qed
  qed
qed

text \<open>
  A wheel step towards the point \<open>(1000, 600)\<close>, which shows \<open>(200, 300)\<close>, and a pinch
  from distance 100 to distance 250 about \<open>(975, 600)\<close>, which shows \<open>(75, 300)\<close>.
\<close>

theorem zoom_anchor_witness:
  "(\<exists>vb. handleWheel True \<lparr>clientX = 1000, clientY = 600, deltaY = - 1\<rparr>
            \<lparr>vb_x = 0, vb_y = 0, vb_scale = 0.2\<rparr> = Some vb
         \<and> vb_scale vb = 0.6
         \<and> toScreen \<lparr>vb_x = 0, vb_y = 0, vb_scale = 0.2\<rparr> (200, 300) = (1000, 600)
         \<and> toScreen vb (200, 300) = (1000, 600))
   \<and> (\<exists>st'. handleTouchMove True [\<lparr>clientX = 900, clientY = 500\<rparr>, \<lparr>clientX = 1050, clientY = 700\<rparr>]
            \<lparr>viewBox = \<lparr>vb_x = 0, vb_y = 0, vb_scale = 0.2\<rparr>, panStateRef = None,
             lastTouchDistance = Some 100\<rparr> = Some st'
         \<and> vb_scale (viewBox st') = 0.8
         \<and> toScreen \<lparr>vb_x = 0, vb_y = 0, vb_scale = 0.2\<rparr> (75, 300) = (975, 600)
         \<and> toScreen (viewBox st') (75, 300) = (975, 600))"
proof -
  let ?prev = "\<lparr>vb_x = 0, vb_y = 0, vb_scale = 0.2\<rparr>"
  let ?st = "\<lparr>viewBox = ?prev, panStateRef = None, lastTouchDistance = Some 100\<rparr>"
  let ?e = "\<lparr>clientX = 1000, clientY = 600, deltaY = - 1\<rparr>"
  let ?t0 = "\<lparr>clientX = 900, clientY = 500\<rparr>"
  let ?t1 = "\<lparr>clientX = 1050, clientY = 700\<rparr>"
  have sq: "sqrt 62500 = 250"
    by (rule real_sqrt_unique) simp_all
  have p1: "toScreen ?prev (200, 300) = (1000, 600)"
    and p2: "toScreen ?prev (75, 300) = (975, 600)"
    by (simp_all add: toScreen_def FIXED_VIEWPORT_def)
  have "vb_scale ?prev > 0" and "viewBox ?st = ?prev" by simp_all
  from zoom_anchor [OF this, of True ?e ?t0 ?t1]
  obtain vb st' where w: "handleWheel True ?e ?prev = Some vb"
    and wa: "\<forall>p. toScreen ?prev p = (1000, 600) \<longrightarrow> toScreen vb p = (1000, 600)"
    and t: "handleTouchMove True [?t0, ?t1] ?st = Some st'"
    and ta: "\<forall>p. toScreen ?prev p = (975, 600) \<longrightarrow> toScreen (viewBox st') p = (975, 600)"
    by auto
  have ws: "vb_scale vb = 0.6"
    using w by (auto simp: handleWheel_def Let_def js_div_def ZOOM_SPEED_def)
  have ts: "vb_scale (viewBox st') = 0.8"
    using t by (auto simp: handleTouchMove_def Let_def js_div_def ZOOM_SPEED_def sq)
  from wa p1 have a1: "toScreen vb (200, 300) = (1000, 600)" by blast
  from ta p2 have a2: "toScreen (viewBox st') (75, 300) = (975, 600)" by blast
  show ?thesis
    using w ws p1 a1 t ts p2 a2 by blast
qed

text \<open>
  C4 (as amended). From a transform of positive scale, a wheel step on a desktop
  device multiplies the scale by \<open>1 - sgn deltaY * 0.14\<close> and leaves it positive. On a
  mobile device it multiplies the scale by \<open>1 - sgn deltaY * 2\<close>, which leaves it
  positive exactly when \<open>deltaY \<le> 0\<close>. A pinch step leaves the scale as it is when no
  previous distance is stored, and multiplies it by
  \<open>1 + (distance / previous - 1) * 2\<close> otherwise, which leaves it positive exactly when
  the distance is more than half the previous one. The new scale is stored as
  computed; nothing clamps or rejects it.
\<close>

theorem zoom_scale_sign:
  assumes "vb_scale prev > 0" and "viewBox st = prev"
    and "distance = sqrt ((clientX t0 - clientX t1) * (clientX t0 - clientX t1)
                          + (clientY t0 - clientY t1) * (clientY t0 - clientY t1))"
  shows "(\<exists>vb. handleWheel False e prev = Some vb
            \<and> vb_scale vb = vb_scale prev * (1 - sgn (deltaY e) * 0.14)
            \<and> vb_scale vb > 0)
       \<and> (\<exists>vb. handleWheel True e prev = Some vb
            \<and> vb_scale vb = vb_scale prev * (1 - sgn (deltaY e) * 2)
            \<and> (vb_scale vb > 0 \<longleftrightarrow> deltaY e \<le> 0))
       \<and> (\<exists>st'. handleTouchMove isMobile [t0, t1] st = Some st'
            \<and> vb_scale (viewBox st') =
                (case lastTouchDistance st of
                   None \<Rightarrow> vb_scale prev
                 | Some previous \<Rightarrow>
                     if previous = 0 then vb_scale prev
                     else vb_scale prev * (1 + (distance / previous - 1) * 2))
            \<and> (vb_scale (viewBox st') > 0 \<longleftrightarrow>
                (case lastTouchDistance st of
                   None \<Rightarrow> True
                 | Some previous \<Rightarrow> previous = 0 \<or> 2 * (distance / previous) > 1)))"
proof (intro conjI)
  have nz: "vb_scale prev \<noteq> 0" using assms(1) by simp
  show "\<exists>vb. handleWheel False e prev = Some vb
            \<and> vb_scale vb = vb_scale prev * (1 - sgn (deltaY e) * 0.14)
            \<and> vb_scale vb > 0"
    using handleWheel_Some [OF nz refl, of False e] assms(1) desktop_factor_pos [of "deltaY e"]
    by simp
  show "\<exists>vb. handleWheel True e prev = Some vb
            \<and> vb_scale vb = vb_scale prev * (1 - sgn (deltaY e) * 2)
            \<and> (vb_scale vb > 0 \<longleftrightarrow> deltaY e \<le> 0)"
    using handleWheel_Some [OF nz refl, of True e] assms(1) mobile_factor_pos [of "deltaY e"]
    by (simp add: zero_less_mult_iff)
  have nz': "vb_scale (viewBox st) \<noteq> 0" using assms by simp
  show "\<exists>st'. handleTouchMove isMobile [t0, t1] st = Some st'
            \<and> vb_scale (viewBox st') =
                (case lastTouchDistance st of
                   None \<Rightarrow> vb_scale prev
                 | Some previous \<Rightarrow>
                     if previous = 0 then vb_scale prev
                     else vb_scale prev * (1 + (distance / previous - 1) * 2))
            \<and> (vb_scale (viewBox st') > 0 \<longleftrightarrow>
                (case lastTouchDistance st of
                   None \<Rightarrow> True
                 | Some previous \<Rightarrow> previous = 0 \<or> 2 * (distance / previous) > 1))"
  proof (cases "lastTouchDistance st = None \<or> lastTouchDistance st = Some 0")
    case True
    show ?thesis
      unfolding handleTouchMove_first [OF True] using assms(1,2) True by auto
  next
    case False
    then obtain previous where p: "lastTouchDistance st = Some previous" "previous \<noteq> 0"
      by auto
    have f: "0 < 1 + (distance / previous - 1) * 2 \<longleftrightarrow> 2 * (distance / previous) > 1"
      by (simp add: algebra_simps)
    show ?thesis
      unfolding handleTouchMove_pinch [OF nz' p assms(3) refl assms(2) [symmetric]]
      using assms(1) p f by (simp add: zero_less_mult_iff)
  qed
qed

text \<open>
  From the scale 0.4: a wheel step down on a desktop device, a wheel step up on a
  mobile device, and a pinch from distance 100 to distance 80.
\<close>

theorem zoom_scale_sign_witness:
  "(\<exists>vb. handleWheel False \<lparr>clientX = 960, clientY = 540, deltaY = 1\<rparr>
            \<lparr>vb_x = 0, vb_y = 0, vb_scale = 0.4\<rparr> = Some vb \<and> vb_scale vb = 0.344)
   \<and> (\<exists>vb. handleWheel True \<lparr>clientX = 960, clientY = 540, deltaY = - 1\<rparr>
            \<lparr>vb_x = 0, vb_y = 0, vb_scale = 0.4\<rparr> = Some vb \<and> vb_scale vb = 1.2)
   \<and> (\<exists>st'. handleTouchMove True [\<lparr>clientX = 0, clientY = 0\<rparr>, \<lparr>clientX = 80, clientY = 0\<rparr>]
            \<lparr>viewBox = \<lparr>vb_x = 0, vb_y = 0, vb_scale = 0.4\<rparr>, panStateRef = None,
             lastTouchDistance = Some 100\<rparr> = Some st'
         \<and> vb_scale (viewBox st') = 0.24)"
proof -
  let ?prev = "\<lparr>vb_x = 0, vb_y = 0, vb_scale = 0.4\<rparr>"
  let ?st = "\<lparr>viewBox = ?prev, panStateRef = None, lastTouchDistance = Some 100\<rparr>"
  have sq: "80 = sqrt ((clientX \<lparr>clientX = 0, clientY = 0\<rparr> - clientX \<lparr>clientX = 80, clientY = 0\<rparr>)
                       * (clientX \<lparr>clientX = 0, clientY = 0\<rparr> - clientX \<lparr>clientX = 80, clientY = 0\<rparr>)
                     + (clientY \<lparr>clientX = 0, clientY = 0\<rparr> - clientY \<lparr>clientX = 80, clientY = 0\<rparr>)
                       * (clientY \<lparr>clientX = 0, clientY = 0\<rparr> - clientY \<lparr>clientX = 80, clientY = 0\<rparr>))"
    by simp
  have a: "vb_scale ?prev > 0" and b: "viewBox ?st = ?prev" by simp_all
  show ?thesis
    using zoom_scale_sign [OF a b sq, of "\<lparr>clientX = 960, clientY = 540, deltaY = 1\<rparr>" True]
      zoom_scale_sign [OF a b sq, of "\<lparr>clientX = 960, clientY = 540, deltaY = - 1\<rparr>" True]
    by simp blast
qed

text \<open>
  C4 as the specification words it fails. From the scale 0.4, the initial zoom of a
  mobile device, a wheel step down on a mobile device gives the scale \<open>-0.4\<close>; a pinch
  from distance 100 to distance 50 gives the scale 0, and one to distance 40 gives
  \<open>-0.08\<close>.
\<close>

theorem zoom_scale_counterexample:
  "map_option vb_scale
     (handleWheel True \<lparr>clientX = 960, clientY = 540, deltaY = 1\<rparr>
        \<lparr>vb_x = 0, vb_y = 0, vb_scale = 0.4\<rparr>) = Some (- 0.4)
   \<and> map_option (\<lambda>st. vb_scale (viewBox st))
       (handleTouchMove True [\<lparr>clientX = 0, clientY = 0\<rparr>, \<lparr>clientX = 50, clientY = 0\<rparr>]
          \<lparr>viewBox = \<lparr>vb_x = 0, vb_y = 0, vb_scale = 0.4\<rparr>, panStateRef = None,
           lastTouchDistance = Some 100\<rparr>) = Some 0
   \<and> map_option (\<lambda>st. vb_scale (viewBox st))
       (handleTouchMove True [\<lparr>clientX = 0, clientY = 0\<rparr>, \<lparr>clientX = 40, clientY = 0\<rparr>]
          \<lparr>viewBox = \<lparr>vb_x = 0, vb_y = 0, vb_scale = 0.4\<rparr>, panStateRef = None,
           lastTouchDistance = Some 100\<rparr>) = Some (- 0.08)"
  by (simp add: handleWheel_def handleTouchMove_def Let_def js_div_def ZOOM_SPEED_def
      FIXED_VIEWPORT_def)

text \<open>
  C8. \<open>isCharacterVisible\<close> is a function of the position, the transform and the device
  class alone. It holds exactly when the screen point
  \<open>(960 + viewBox.x + x * scale, 540 + viewBox.y + y * scale)\<close> lies in
  \<open>[-margin, 1920 + margin] \<times> [-margin, 1080 + margin]\<close>, the margin being 800 on a mobile
  device and 500 otherwise.
\<close>

theorem culling_predicate:
  "isCharacterVisible isMobile vb x y \<longleftrightarrow>
     (let margin = (if isMobile then 800 else 500);
          screenX = 960 + vb_x vb + x * vb_scale vb;
          screenY = 540 + vb_y vb + y * vb_scale vb
      in - margin \<le> screenX \<and> screenX \<le> 1920 + margin
         \<and> - margin \<le> screenY \<and> screenY \<le> 1080 + margin)"
  by (simp add: isCharacterVisible_def Let_def FIXED_VIEWPORT_def CULLING_MARGIN_def add_ac)

section \<open>Properties of the search\<close>

lemma characterIndex_absent:
  assumes "\<forall>c \<in> set characterPositions. walletAddress c \<noteq> k"
  shows "characterIndex characterPositions k = None"
proof -
  have "fold (\<lambda>char index. index(walletAddress char \<mapsto> char)) cs m k = m k"
    if "\<forall>c \<in> set cs. walletAddress c \<noteq> k" for cs and m :: "js_seed \<rightharpoonup> character"
    using that by (induction cs arbitrary: m) auto
  from this [OF assms, of Map.empty] show ?thesis
    by (simp add: characterIndex_def)
qed

text \<open>
  A search that finds its character, with a first frame a second or more after the
  start: the frame sets the target transform and asks for no other.
\<close>

lemma handleSearch_found:
  assumes "walletAddress character = Str searchInput" and "now + 1000 \<le> currentTime"
  shows "handleSearch [character] searchInput now (currentTime # later) vb
           = (\<lparr>vb_x = - char_x character - 100, vb_y = - char_y character - 50, vb_scale = 1\<rparr>, [])"
proof -
  have "min ((currentTime - now) / 1000) 1 = 1"
    using assms(2) by (simp add: min_def)
  then show ?thesis
    using assms(1) by (simp add: handleSearch_def characterIndex_def animate_def Let_def)
qed

text \<open>
  C7. A search for a string that is the \<open>walletAddress\<close> of no character raises the
  alert \<open>Character not found\<close>, requests no frame and leaves \<open>viewBox\<close> as it was.
\<close>

theorem search_not_found:
  assumes "\<forall>c \<in> set characterPositions. walletAddress c \<noteq> Str searchInput"
  shows "handleSearch characterPositions searchInput now frames vb
           = (vb, [''Character not found''])"
  by (simp add: handleSearch_def characterIndex_absent [OF assms])

text \<open>A search for \<open>B\<close> among the characters of \<open>A\<close> alone.\<close>

theorem search_not_found_witness:
  "handleSearch
     [\<lparr>char_x = 10, char_y = 20, sizeParameter = 1, paramSeed = 65, walletAddress = Str [65],
       boundingBox = \<lparr>bb_left = - 290, bb_right = 310, bb_top = - 280, bb_bottom = 320,
                      bb_width = 600, bb_height = 600\<rparr>\<rparr>]
     [66] 0 [16, 32] \<lparr>vb_x = 5, vb_y = 7, vb_scale = 0.2\<rparr>
   = (\<lparr>vb_x = 5, vb_y = 7, vb_scale = 0.2\<rparr>, [''Character not found''])"
  by (rule search_not_found) simp

end
